theory Spec2Isabelle
  imports Main "HOL-Library.Sublist"
begin

section \<open>The parsed pipeline document\<close>

text \<open>
  \<^verbatim>\<open>json.load\<close> turns the pipeline file into a Python value: \<^verbatim>\<open>None\<close>, a bool, an int, a
  float, a str, a list or a dict with str keys. A dict is kept as its items in insertion
  order (the keys of a Python dict are distinct; no theorem below needs it). A float is
  kept as the text \<^verbatim>\<open>repr\<close> gives for it, since the program only ever formats it. A str
  is a list of characters with code points below 256.
\<close>

datatype json =
    JNull
  | JBool bool
  | JInt int
  | JFloat string
  | JStr string
  | JArr "json list"
  | JObj "(string \<times> json) list"

text \<open>
  The exceptions that can leave \<^verbatim>\<open>read_pipeline\<close>; none is caught inside it. A
  \<^verbatim>\<open>KeyError\<close> carries the key that was not found. \<^verbatim>\<open>KeyError\<close> and \<^verbatim>\<open>IndexError\<close> are the
  two lookup errors (subclasses of \<^verbatim>\<open>LookupError\<close>).
\<close>

datatype py_error =
    OSError
  | JSONDecodeError
  | KeyError json
  | IndexError
  | TypeError
  | AttributeError

type_synonym 'a result = "py_error + 'a"

section \<open>The operations of Python the function applies to the document\<close>

subsection \<open>Text of a value: \<^verbatim>\<open>str\<close> and \<^verbatim>\<open>repr\<close>\<close>

function digits :: "nat \<Rightarrow> string" where
  "digits n = (if n < 10 then [char_of (48 + n)] else digits (n div 10) @ [char_of (48 + n mod 10)])"
  by pat_completeness auto
termination
  by (relation "measure id") auto

declare digits.simps [simp del]

definition str_int :: "int \<Rightarrow> string" where
  "str_int i = (if i < 0 then CHR ''-'' # digits (nat (- i)) else digits (nat i))"

definition hexdigit :: "nat \<Rightarrow> char" where
  "hexdigit n = (if n < 10 then char_of (48 + n) else char_of (87 + n))"

text \<open>
  \<^verbatim>\<open>repr\<close> of a str: single quotes, unless the text has a single quote and no double
  quote; the quote and the backslash are escaped, tab, newline and carriage return get
  their letter, and every other character that is not printable is written \<^verbatim>\<open>\xhh\<close>.
  Below 256 the printable characters are 0x20 to 0x7e and 0xa1 to 0xff without 0xad.
\<close>

definition printable :: "char \<Rightarrow> bool" where
  "printable c = (let n = (of_char c :: nat) in (32 \<le> n \<and> n < 127) \<or> (161 \<le> n \<and> n \<noteq> 173))"

definition repr_char :: "char \<Rightarrow> char \<Rightarrow> string" where
  "repr_char quote c =
     (if c = quote \<or> c = CHR 0x5C then [CHR 0x5C, c]
      else if c = CHR 0x09 then [CHR 0x5C, CHR ''t'']
      else if c = CHR 0x0A then [CHR 0x5C, CHR ''n'']
      else if c = CHR 0x0D then [CHR 0x5C, CHR ''r'']
      else if printable c then [c]
      else [CHR 0x5C, CHR ''x'', hexdigit (of_char c div 16), hexdigit (of_char c mod 16)])"

definition repr_str :: "string \<Rightarrow> string" where
  "repr_str s =
     (let quote = (if CHR 0x27 \<in> set s \<and> CHR 0x22 \<notin> set s then CHR 0x22 else CHR 0x27)
      in quote # concat (map (repr_char quote) s) @ [quote])"

fun join :: "string \<Rightarrow> string list \<Rightarrow> string" where
  "join sep [] = []"
| "join sep [x] = x"
| "join sep (x # y # ys) = x @ sep @ join sep (y # ys)"

fun py_repr :: "json \<Rightarrow> string" where
  "py_repr JNull = ''None''"
| "py_repr (JBool b) = (if b then ''True'' else ''False'')"
| "py_repr (JInt i) = str_int i"
| "py_repr (JFloat r) = r"
| "py_repr (JStr s) = repr_str s"
| "py_repr (JArr xs) = ''['' @ join '', '' (map py_repr xs) @ '']''"
| "py_repr (JObj kvs) =
     ''{'' @ join '', '' (map (\<lambda>kv. repr_str (fst kv) @ '': '' @ py_repr (snd kv)) kvs) @ ''}''"

text \<open>
  \<^verbatim>\<open>str(v)\<close>, which is also what \<^verbatim>\<open>'%s' % v\<close>, \<^verbatim>\<open>'{0}'.format(v)\<close> and \<^verbatim>\<open>f'{v}'\<close> put
  into the text for these types: a str as it is, everything else as its \<^verbatim>\<open>repr\<close>.
\<close>

fun py_str :: "json \<Rightarrow> string" where
  "py_str (JStr s) = s"
| "py_str v = py_repr v"

subsection \<open>Subscripts, membership, length, iteration, methods\<close>

text \<open>\<^verbatim>\<open>v[k]\<close> with a str key: only a dict takes one.\<close>

fun getitem :: "json \<Rightarrow> string \<Rightarrow> json result" where
  "getitem (JObj kvs) k = (case map_of kvs k of None \<Rightarrow> Inl (KeyError (JStr k)) | Some v \<Rightarrow> Inr v)"
| "getitem v k = Inl TypeError"

text \<open>\<^verbatim>\<open>v[0]\<close>: the first element of a list or a str; a dict has str keys only.\<close>

fun getitem0 :: "json \<Rightarrow> json result" where
  "getitem0 (JArr []) = Inl IndexError"
| "getitem0 (JArr (x # xs)) = Inr x"
| "getitem0 (JStr []) = Inl IndexError"
| "getitem0 (JStr (c # cs)) = Inr (JStr [c])"
| "getitem0 (JObj kvs) = Inl (KeyError (JInt 0))"
| "getitem0 v = Inl TypeError"

text \<open>\<^verbatim>\<open>k in v\<close> with a str on the left: a key of a dict, an element of a list, a substring.\<close>

fun py_in :: "string \<Rightarrow> json \<Rightarrow> bool result" where
  "py_in k (JObj kvs) = Inr (map_of kvs k \<noteq> None)"
| "py_in k (JArr xs) = Inr (List.member xs (JStr k))"
| "py_in k (JStr s) = Inr (sublist k s)"
| "py_in k v = Inl TypeError"

fun py_len :: "json \<Rightarrow> nat result" where
  "py_len (JArr xs) = Inr (length xs)"
| "py_len (JObj kvs) = Inr (length kvs)"
| "py_len (JStr s) = Inr (length s)"
| "py_len v = Inl TypeError"

text \<open>What a \<^verbatim>\<open>for\<close> loop runs over: the elements of a list, the keys of a dict, the
  characters of a str.\<close>

fun py_iter :: "json \<Rightarrow> json list result" where
  "py_iter (JArr xs) = Inr xs"
| "py_iter (JObj kvs) = Inr (map (\<lambda>kv. JStr (fst kv)) kvs)"
| "py_iter (JStr s) = Inr (map (\<lambda>c. JStr [c]) s)"
| "py_iter v = Inl TypeError"

text \<open>\<^verbatim>\<open>v.replace(old, new)\<close> for one-character \<^verbatim>\<open>old\<close> and \<^verbatim>\<open>new\<close>: a method of str only.\<close>

definition str_replace :: "string \<Rightarrow> char \<Rightarrow> char \<Rightarrow> string" where
  "str_replace s old new = map (\<lambda>c. if c = old then new else c) s"

fun replace :: "json \<Rightarrow> char \<Rightarrow> char \<Rightarrow> string result" where
  "replace (JStr s) old new = Inr (str_replace s old new)"
| "replace v old new = Inl AttributeError"

text \<open>\<^verbatim>\<open>v.get(k, default)\<close> and \<^verbatim>\<open>v.items()\<close>: methods of dict only.\<close>

fun py_get :: "json \<Rightarrow> string \<Rightarrow> json \<Rightarrow> json result" where
  "py_get (JObj kvs) k d = Inr (case map_of kvs k of None \<Rightarrow> d | Some v \<Rightarrow> v)"
| "py_get v k d = Inl AttributeError"

fun py_items :: "json \<Rightarrow> (string \<times> json) list result" where
  "py_items (JObj kvs) = Inr kvs"
| "py_items v = Inl AttributeError"

section \<open>The renderer\<close>

text \<open>
  The markdown file object \<^verbatim>\<open>md\<close> is modelled by the text of the file: \<^verbatim>\<open>md.write(s)\<close>
  appends \<^verbatim>\<open>s\<close> to it (buffering is not modelled, and writes are taken to succeed).
  Inside the loop over the activities the state is that text together with the local
  variable \<^verbatim>\<open>mermaid_code\<close>. Every step returns the exception it raised, if any, and the
  state it left behind: what was written before an exception stays written.
\<close>

record state =
  md :: string
  mermaid_code :: string

definition md_write :: "string \<Rightarrow> state \<Rightarrow> state" where
  "md_write s st = st\<lparr>md := md st @ s\<rparr>"

subsection \<open>One entry of \<^verbatim>\<open>dependsOn\<close> (the body of the inner loop)\<close>

definition render_dependency :: "json \<Rightarrow> json \<Rightarrow> state \<Rightarrow> py_error option \<times> state" where
  "render_dependency activity_name dep st =
     (case getitem dep ''activity'' of Inl e \<Rightarrow> (Some e, st) | Inr dep_activity \<Rightarrow>
      case replace dep_activity CHR '' '' CHR ''-'' of Inl e \<Rightarrow> (Some e, st) | Inr anchor \<Rightarrow>
      case getitem dep ''dependencyConditions'' of Inl e \<Rightarrow> (Some e, st) | Inr conditions \<Rightarrow>
      case getitem0 conditions of Inl e \<Rightarrow> (Some e, st) | Inr condition \<Rightarrow>
      let st1 = md_write (''\<newline>   * ['' @ py_str dep_activity @ ''](''
                       @ ''#'' @ anchor @ '') ('' @ py_str condition @ '') \<newline>'') st in
      case replace dep_activity CHR '' '' CHR ''_'' of Inl e \<Rightarrow> (Some e, st1) | Inr dep_node \<Rightarrow>
      case replace activity_name CHR '' '' CHR ''_'' of Inl e \<Rightarrow> (Some e, st1) | Inr node \<Rightarrow>
      (None, st1\<lparr>mermaid_code := mermaid_code st1 @ dep_node @ '' --> '' @ node @ '';\<newline>''\<rparr>))"

fun render_dependencies :: "json \<Rightarrow> json list \<Rightarrow> state \<Rightarrow> py_error option \<times> state" where
  "render_dependencies activity_name [] st = (None, st)"
| "render_dependencies activity_name (dep # deps) st =
     (case render_dependency activity_name dep st of
        (Some e, st1) \<Rightarrow> (Some e, st1)
      | (None, st1) \<Rightarrow> render_dependencies activity_name deps st1)"

subsection \<open>The source of a Copy activity\<close>

definition render_copy :: "json \<Rightarrow> state \<Rightarrow> py_error option \<times> state" where
  "render_copy act st =
     (case getitem act ''typeProperties'' of Inl e \<Rightarrow> (Some e, st) | Inr type_properties \<Rightarrow>
      case getitem type_properties ''source'' of Inl e \<Rightarrow> (Some e, st) | Inr source_info \<Rightarrow>
      case getitem source_info ''type'' of Inl e \<Rightarrow> (Some e, st) | Inr source_info_type \<Rightarrow>
      let st1 = md_write (''\<newline>   **Data Source Type:** '' @ py_str source_info_type @ '' \<newline>'') st in
      case getitem source_info ''sqlReaderQuery'' of Inl e \<Rightarrow> (Some e, st1) | Inr query \<Rightarrow>
      case getitem query ''value'' of Inl e \<Rightarrow> (Some e, st1) | Inr value_sql \<Rightarrow>
      let st2 = md_write ''\<newline>   **SQL Statement:**  \<newline>'' st1 in
      (None, md_write (''\<newline>   ```SQL \<newline>   '' @ py_str value_sql @ '' \<newline>   ```'') st2))"

subsection \<open>One activity (the body of the outer loop)\<close>

definition render_activity_description :: "json \<Rightarrow> state \<Rightarrow> py_error option \<times> state" where
  "render_activity_description act st =
     (case py_in ''description'' act of Inl e \<Rightarrow> (Some e, st) | Inr has_description \<Rightarrow>
      if has_description
      then (case getitem act ''description'' of Inl e \<Rightarrow> (Some e, st) | Inr act_description \<Rightarrow>
              (None, md_write (''\<newline>   **Description:** '' @ py_str act_description @ '' \<newline>'') st))
      else (None, st))"

definition render_depends_on :: "json \<Rightarrow> json \<Rightarrow> state \<Rightarrow> py_error option \<times> state" where
  "render_depends_on activity_name act st =
     (case getitem act ''dependsOn'' of Inl e \<Rightarrow> (Some e, st) | Inr depends_on \<Rightarrow>
      case py_len depends_on of Inl e \<Rightarrow> (Some e, st) | Inr n \<Rightarrow>
      if n > 0
      then (let st1 = md_write ''\<newline>   **Dependencies:**'' st in
            case py_iter depends_on of Inl e \<Rightarrow> (Some e, st1) | Inr deps \<Rightarrow>
              render_dependencies activity_name deps st1)
      else (None, st))"

definition render_activity :: "json \<Rightarrow> state \<Rightarrow> py_error option \<times> state" where
  "render_activity act st =
     (case getitem act ''name'' of Inl e \<Rightarrow> (Some e, st) | Inr activity_name \<Rightarrow>
      case getitem act ''type'' of Inl e \<Rightarrow> (Some e, st) | Inr tipo_actividad \<Rightarrow>
      let st1 = md_write (''\<newline> - **Name:** '' @ py_str activity_name @ '' \<newline>'') st;
          st2 = md_write (''\<newline>   **Type:** '' @ py_str tipo_actividad @ '' \<newline>'') st1 in
      case replace activity_name CHR '' '' CHR ''_'' of Inl e \<Rightarrow> (Some e, st2) | Inr node \<Rightarrow>
      let st3 = st2\<lparr>mermaid_code := mermaid_code st2 @ node @ ''('' @ py_str activity_name @ '');\<newline>''\<rparr> in
      case render_activity_description act st3 of (Some e, st4) \<Rightarrow> (Some e, st4) | (None, st4) \<Rightarrow>
      case render_depends_on activity_name act st4 of (Some e, st5) \<Rightarrow> (Some e, st5) | (None, st5) \<Rightarrow>
      if tipo_actividad = JStr ''Copy'' then render_copy act st5 else (None, st5))"

fun render_activities :: "json list \<Rightarrow> state \<Rightarrow> py_error option \<times> state" where
  "render_activities [] st = (None, st)"
| "render_activities (act # acts) st =
     (case render_activity act st of
        (Some e, st1) \<Rightarrow> (Some e, st1)
      | (None, st1) \<Rightarrow> render_activities acts st1)"

subsection \<open>The pipeline description and the parameter table\<close>

definition render_description :: "json \<Rightarrow> string \<Rightarrow> py_error option \<times> string" where
  "render_description properties out =
     (case py_in ''description'' properties of Inl e \<Rightarrow> (Some e, out) | Inr has_description \<Rightarrow>
      if has_description
      then (case getitem properties ''description'' of Inl e \<Rightarrow> (Some e, out) | Inr pipeline_description \<Rightarrow>
              (None, out @ (''\<newline> **Description:** '' @ py_str pipeline_description @ '' \<newline>'')
                         @ ''\<newline>\<newline> ### Steps \<newline>''))
      else (None, out))"

fun render_parameter_rows :: "(string \<times> json) list \<Rightarrow> string \<Rightarrow> py_error option \<times> string" where
  "render_parameter_rows [] out = (None, out)"
| "render_parameter_rows ((parameter, info) # rest) out =
     (case py_get info ''type'' JNull of Inl e \<Rightarrow> (Some e, out) | Inr parameter_type \<Rightarrow>
      case py_get info ''defaultValue'' JNull of Inl e \<Rightarrow> (Some e, out) | Inr default_value \<Rightarrow>
      render_parameter_rows rest
        (out @ ''\<newline> |'' @ parameter @ ''|'' @ py_str parameter_type @ ''|'' @ py_str default_value @ ''|''))"

definition render_parameters :: "json \<Rightarrow> string \<Rightarrow> py_error option \<times> string" where
  "render_parameters properties out =
     (case py_in ''parameters'' properties of Inl e \<Rightarrow> (Some e, out) | Inr has_parameters \<Rightarrow>
      if has_parameters
      then (let out1 = out @ ''\<newline>\<newline> ### Parameters \<newline>''
                           @ ''\<newline> | Name | Type | Default Value |''
                           @ ''\<newline> |---|---|---|'' in
            case py_get properties ''parameters'' (JObj []) of Inl e \<Rightarrow> (Some e, out1) | Inr parameters \<Rightarrow>
            case py_items parameters of Inl e \<Rightarrow> (Some e, out1) | Inr items \<Rightarrow>
            render_parameter_rows items out1)
      else (None, out))"

subsection \<open>The body of the \<^verbatim>\<open>with\<close> block, from the parsed document on\<close>

definition render_pipeline :: "json \<Rightarrow> string \<Rightarrow> py_error option \<times> string" where
  "render_pipeline pipelines_data out =
     (case getitem pipelines_data ''name'' of Inl e \<Rightarrow> (Some e, out) | Inr name \<Rightarrow>
      let out1 = out @ ''\<newline>\<newline> ## '' @ py_str name @ '' \<newline>'' in
      case py_get pipelines_data ''properties'' (JObj []) of Inl e \<Rightarrow> (Some e, out1) | Inr properties \<Rightarrow>
      case render_description properties out1 of (Some e, out2) \<Rightarrow> (Some e, out2) | (None, out2) \<Rightarrow>
      case getitem properties ''activities'' of Inl e \<Rightarrow> (Some e, out2) | Inr activities \<Rightarrow>
      case py_iter activities of Inl e \<Rightarrow> (Some e, out2) | Inr acts \<Rightarrow>
      case render_activities acts \<lparr>md = out2, mermaid_code = ''```mermaid\<newline>graph LR;\<newline>''\<rparr> of
        (Some e, st) \<Rightarrow> (Some e, md st)
      | (None, st) \<Rightarrow>
          render_parameters properties
            (md st @ ''\<newline>\<newline> ### Activities Diagram \<newline>''
                   @ ''\<newline> '' @ (mermaid_code st @ '' ```'')))"

subsection \<open>\<^verbatim>\<open>read_pipeline\<close>\<close>

text \<open>
  The two files as the function meets them. The pipeline file either cannot be opened,
  or cannot be parsed by \<^verbatim>\<open>json.load\<close>, or gives a document. The markdown file is absent
  (\<open>None\<close>) or has a text; opening it with mode \<^verbatim>\<open>'a'\<close> creates it empty when it is
  absent, and is taken to succeed. The result records the exception that left the
  function, the text of the markdown file afterwards, and whether \<^verbatim>\<open>md.close()\<close>, the
  last statement of the function, was executed. The call of \<^verbatim>\<open>logging.info\<close> changes
  none of these.
\<close>

datatype pipeline_file = Unopenable | Unparsable | Document json

record run =
  raised :: "py_error option"
  md_text :: string
  md_closed :: bool

definition open_append :: "string option \<Rightarrow> string" where
  "open_append markdown_file = (case markdown_file of None \<Rightarrow> [] | Some text \<Rightarrow> text)"

definition read_pipeline :: "pipeline_file \<Rightarrow> string option \<Rightarrow> run" where
  "read_pipeline pipeline_file markdown_file =
     (let out = open_append markdown_file in
      case pipeline_file of
        Unopenable \<Rightarrow> \<lparr>raised = Some OSError, md_text = out, md_closed = False\<rparr>
      | Unparsable \<Rightarrow> \<lparr>raised = Some JSONDecodeError, md_text = out, md_closed = False\<rparr>
      | Document pipelines_data \<Rightarrow>
          (case render_pipeline pipelines_data out of
             (Some e, out1) \<Rightarrow> \<lparr>raised = Some e, md_text = out1, md_closed = False\<rparr>
           | (None, out1) \<Rightarrow> \<lparr>raised = None, md_text = out1, md_closed = True\<rparr>))"

section \<open>Auxiliary definitions\<close>

definition pre :: "string \<Rightarrow> string \<Rightarrow> state \<Rightarrow> state" where
  "pre t u st = st\<lparr>md := t @ md st, mermaid_code := u @ mermaid_code st\<rparr>"

definition dependency_example :: json where
  "dependency_example =
     JObj [(''name'', JStr ''Daily''),
           (''properties'', JObj [(''activities'', JArr [
              JObj [(''name'', JStr ''Load Data''), (''type'', JStr ''Wait''), (''dependsOn'', JArr [])],
              JObj [(''name'', JStr ''Next Step''), (''type'', JStr ''Wait''),
                    (''dependsOn'', JArr [JObj [(''activity'', JStr ''Load Data''),
                                                (''dependencyConditions'', JArr [JStr ''Succeeded''])]])]])])]"

definition copy_example :: json where
  "copy_example =
     JObj [(''name'', JStr ''Daily''),
           (''properties'', JObj [(''activities'', JArr [
              JObj [(''name'', JStr ''Load Data''), (''type'', JStr ''Copy''), (''dependsOn'', JArr []),
                    (''typeProperties'', JObj [(''source'', JObj [
                       (''type'', JStr ''OracleSource''),
                       (''sqlReaderQuery'', JObj [(''value'', JStr ''SELECT 1'')])])])]])])]"

definition parameters_example :: json where
  "parameters_example =
     JObj [(''name'', JStr ''Daily''),
           (''properties'', JObj [(''activities'', JArr []),
              (''parameters'', JObj [
                 (''windowStart'', JObj [(''type'', JStr ''String''), (''defaultValue'', JStr ''2021-01-01'')]),
                 (''windowEnd'', JObj [(''type'', JStr ''String'')])])])]"

section \<open>Lemmas\<close>

lemma md_pre [simp]: "md (pre t u st) = t @ md st"
  and mermaid_code_pre [simp]: "mermaid_code (pre t u st) = u @ mermaid_code st"
  by (simp_all add: pre_def)

lemma md_write_pre [simp]: "md_write s (pre t u st) = pre t u (md_write s st)"
  by (simp add: md_write_def pre_def)

lemma mermaid_update_pre [simp]:
  "(pre t u st)\<lparr>mermaid_code := u @ mermaid_code st @ x\<rparr> = pre t u (st\<lparr>mermaid_code := mermaid_code st @ x\<rparr>)"
  by (simp add: pre_def)

lemma render_dependency_frame [simp]:
  "render_dependency a d (pre t u st) = apsnd (pre t u) (render_dependency a d st)"
  by (simp add: render_dependency_def Let_def split: sum.splits)

lemma render_dependencies_frame [simp]:
  "render_dependencies a ds (pre t u st) = apsnd (pre t u) (render_dependencies a ds st)"
  by (induction ds arbitrary: st) (auto split: prod.splits option.splits)

lemma render_copy_frame [simp]:
  "render_copy act (pre t u st) = apsnd (pre t u) (render_copy act st)"
  by (simp add: render_copy_def Let_def split: sum.splits)

lemma render_activity_description_frame [simp]:
  "render_activity_description act (pre t u st) = apsnd (pre t u) (render_activity_description act st)"
  by (simp add: render_activity_description_def split: sum.splits)

lemma render_depends_on_frame [simp]:
  "render_depends_on a act (pre t u st) = apsnd (pre t u) (render_depends_on a act st)"
  by (simp add: render_depends_on_def Let_def split: sum.splits)

lemma render_activity_frame [simp]:
  "render_activity act (pre t u st) = apsnd (pre t u) (render_activity act st)"
  by (simp add: render_activity_def Let_def split: sum.splits prod.splits option.splits)

lemma render_activities_frame [simp]:
  "render_activities acts (pre t u st) = apsnd (pre t u) (render_activities acts st)"
  by (induction acts arbitrary: st) (auto split: prod.splits option.splits)

lemma render_description_frame:
  "render_description props (t @ out) = apsnd ((@) t) (render_description props out)"
  by (simp add: render_description_def split: sum.splits)

lemma render_parameter_rows_frame:
  "render_parameter_rows rows (t @ out) = apsnd ((@) t) (render_parameter_rows rows out)"
  by (induction rows out rule: render_parameter_rows.induct) (simp_all split: sum.splits)

lemma render_parameters_frame:
  "render_parameters props (t @ out) = apsnd ((@) t) (render_parameters props out)"
  by (simp add: render_parameters_def Let_def render_parameter_rows_frame split: sum.splits)

lemma case_apsnd [simp]:
  "(case apsnd f p of (a, b) \<Rightarrow> g a b) = (case p of (a, b) \<Rightarrow> g a (f b))"
  by (cases p) simp

lemma render_pipeline_frame:
  "render_pipeline doc (t @ out) = apsnd ((@) t) (render_pipeline doc out)"
proof -
  have init: "\<lparr>md = t @ x, mermaid_code = m\<rparr> = pre t [] \<lparr>md = x, mermaid_code = m\<rparr>" for x m
    by (simp add: pre_def)
  show ?thesis
    by (simp add: render_pipeline_def Let_def init render_description_frame render_parameters_frame
          split: sum.splits prod.splits option.splits)
qed

lemma read_pipeline_frame:
  "read_pipeline pf (Some t) =
     (read_pipeline pf None)\<lparr>md_text := t @ md_text (read_pipeline pf None)\<rparr>"
proof -
  have "render_pipeline doc t = apsnd ((@) t) (render_pipeline doc [])" for doc
    using render_pipeline_frame [of doc t "[]"] by simp
  then show ?thesis
    by (simp add: read_pipeline_def open_append_def split: pipeline_file.splits prod.splits option.splits)
qed

lemma state_pre_empty: "st = pre (md st) (mermaid_code st) \<lparr>md = [], mermaid_code = []\<rparr>"
  by (simp add: pre_def)

lemma frame_mono:
  assumes frame: "\<And>t u s. f (pre t u s) = apsnd (pre t u) (f s)" and run: "f st = (r, st')"
  shows "prefix (md st) (md st') \<and> prefix (mermaid_code st) (mermaid_code st')"
proof -
  have "f st = apsnd (pre (md st) (mermaid_code st)) (f \<lparr>md = [], mermaid_code = []\<rparr>)"
    using frame [of "md st" "mermaid_code st" "\<lparr>md = [], mermaid_code = []\<rparr>"] state_pre_empty [of st]
    by simp
  with run have "st' = pre (md st) (mermaid_code st) (snd (f \<lparr>md = [], mermaid_code = []\<rparr>))"
    by (cases "f \<lparr>md = [], mermaid_code = []\<rparr>") simp
  then show ?thesis by simp
qed

lemma text_frame_mono:
  assumes frame: "\<And>t s. f (t @ s) = apsnd ((@) t) (f s)" and run: "f out = (r, out')"
  shows "prefix out out'"
proof -
  have "f out = apsnd ((@) out) (f [])"
    using frame [of out "[]"] by simp
  with run have "out' = out @ snd (f [])"
    by (cases "f []") simp
  then show ?thesis by simp
qed

lemmas render_dependency_mono = frame_mono [of "render_dependency a d" for a d, OF render_dependency_frame]
lemmas render_dependencies_mono = frame_mono [of "render_dependencies a ds" for a ds, OF render_dependencies_frame]
lemmas render_copy_mono = frame_mono [of "render_copy act" for act, OF render_copy_frame]
lemmas render_activity_mono = frame_mono [of "render_activity act" for act, OF render_activity_frame]
lemmas render_activities_mono = frame_mono [of "render_activities acts" for acts, OF render_activities_frame]
lemmas render_parameter_rows_mono = text_frame_mono [of "render_parameter_rows rows" for rows, OF render_parameter_rows_frame]
lemmas render_parameters_mono = text_frame_mono [of "render_parameters props" for props, OF render_parameters_frame]

lemma sublist_prefix_trans: "sublist x a \<Longrightarrow> prefix a b \<Longrightarrow> sublist x b"
  unfolding sublist_def prefix_def by (metis append.assoc)

text \<open>Every element of a loop that ran to its end had its own step run to its end.\<close>

lemma render_dependencies_ran:
  assumes "render_dependencies a ds st = (None, st')" and "d \<in> set ds"
  shows "\<exists>s s'. render_dependency a d s = (None, s') \<and>
           prefix (md s') (md st') \<and> prefix (mermaid_code s') (mermaid_code st')"
  using assms
proof (induction ds arbitrary: st)
  case Nil
  then show ?case by simp
next
  case (Cons x xs)
  from Cons.prems(1) obtain st1 where x: "render_dependency a x st = (None, st1)"
    and xs: "render_dependencies a xs st1 = (None, st')"
    by (auto split: prod.splits option.splits)
  show ?case
  proof (cases "d = x")
    case True
    with x render_dependencies_mono [OF xs] show ?thesis by blast
  next
    case False
    with Cons.prems(2) have "d \<in> set xs" by simp
    from Cons.IH [OF xs this] show ?thesis .
  qed
qed

lemma render_activities_ran:
  assumes "render_activities acts st = (None, st')" and "act \<in> set acts"
  shows "\<exists>s s'. render_activity act s = (None, s') \<and>
           prefix (md s') (md st') \<and> prefix (mermaid_code s') (mermaid_code st')"
  using assms
proof (induction acts arbitrary: st)
  case Nil
  then show ?case by simp
next
  case (Cons x xs)
  from Cons.prems(1) obtain st1 where x: "render_activity x st = (None, st1)"
    and xs: "render_activities xs st1 = (None, st')"
    by (auto split: prod.splits option.splits)
  show ?case
  proof (cases "act = x")
    case True
    with x render_activities_mono [OF xs] show ?thesis by blast
  next
    case False
    with Cons.prems(2) have "act \<in> set xs" by simp
    from Cons.IH [OF xs this] show ?thesis .
  qed
qed

lemma render_parameter_rows_ran:
  assumes "render_parameter_rows rows out = (None, out')" and "(p, info) \<in> set rows"
  shows "\<exists>ty dv. py_get info ''type'' JNull = Inr ty \<and> py_get info ''defaultValue'' JNull = Inr dv \<and>
           sublist (''\<newline> |'' @ p @ ''|'' @ py_str ty @ ''|'' @ py_str dv @ ''|'') out'"
  using assms
proof (induction rows out rule: render_parameter_rows.induct)
  case (1 out)
  then show ?case by simp
next
  case (2 parameter info' rest out)
  from "2.prems"(1) obtain ty dv where ty: "py_get info' ''type'' JNull = Inr ty"
    and dv: "py_get info' ''defaultValue'' JNull = Inr dv"
    and rest: "render_parameter_rows rest
        (out @ ''\<newline> |'' @ parameter @ ''|'' @ py_str ty @ ''|'' @ py_str dv @ ''|'') = (None, out')"
    by (auto split: sum.splits)
  show ?case
  proof (cases "(p, info) = (parameter, info')")
    case True
    have "sublist (''\<newline> |'' @ p @ ''|'' @ py_str ty @ ''|'' @ py_str dv @ ''|'')
            (out @ ''\<newline> |'' @ parameter @ ''|'' @ py_str ty @ ''|'' @ py_str dv @ ''|'')"
      using True by simp
    from this render_parameter_rows_mono [OF rest] have "sublist (''\<newline> |'' @ p @ ''|'' @ py_str ty @ ''|'' @ py_str dv @ ''|'') out'"
      by (rule sublist_prefix_trans)
    with True ty dv show ?thesis by blast
  next
    case False
    with "2.prems"(2) have "(p, info) \<in> set rest" by auto
    from "2.IH" [OF ty dv rest this] show ?thesis .
  qed
qed

lemma getitem_py_get: "getitem v k = Inr x \<Longrightarrow> py_get v k d = Inr x"
  by (cases v) (auto split: option.splits)

lemma getitem_py_in: "getitem v k = Inr x \<Longrightarrow> py_in k v = Inr True"
  by (cases v) (auto split: option.splits)

lemma getitem_missing_py_in: "getitem v k = Inl (KeyError j) \<Longrightarrow> py_in k v = Inr False"
  by (cases v) (auto split: option.splits)

lemma read_pipeline_ok:
  "raised (read_pipeline (Document doc) mf) = None \<Longrightarrow>
     render_pipeline doc (open_append mf) = (None, md_text (read_pipeline (Document doc) mf))"
  by (simp add: read_pipeline_def split: prod.splits option.splits)

lemma render_pipeline_ok:
  assumes "render_pipeline doc out = (None, out')"
    and "getitem doc ''properties'' = Inr props"
    and "getitem props ''activities'' = Inr (JArr acts)"
  shows "\<exists>out2 st. render_activities acts \<lparr>md = out2, mermaid_code = ''```mermaid\<newline>graph LR;\<newline>''\<rparr> = (None, st) \<and>
           render_parameters props
             (md st @ ''\<newline>\<newline> ### Activities Diagram \<newline>'' @ ''\<newline> '' @ (mermaid_code st @ '' ```'')) = (None, out')"
  using assms
  by (auto simp: render_pipeline_def Let_def getitem_py_get split: sum.splits prod.splits option.splits)

lemma render_dependency_text:
  assumes "render_dependency name dep q = (None, q')"
    and "getitem dep ''activity'' = Inr (JStr a)"
    and "getitem dep ''dependencyConditions'' = Inr conds"
    and "getitem0 conds = Inr c"
  shows "\<exists>n. name = JStr n \<and>
           md q' = md q @ ''\<newline>   * ['' @ a @ ''](#'' @ str_replace a CHR '' '' CHR ''-'' @ '') ('' @ py_str c @ '') \<newline>'' \<and>
           mermaid_code q' = mermaid_code q @ str_replace a CHR '' '' CHR ''_'' @ '' --> '' @ str_replace n CHR '' '' CHR ''_'' @ '';\<newline>''"
  using assms
  by (cases name) (auto simp: render_dependency_def md_write_def Let_def split: sum.splits)

lemma render_depends_on_dep:
  assumes "render_depends_on name act s = (None, s')"
    and "getitem act ''dependsOn'' = Inr (JArr deps)" and "dep \<in> set deps"
  shows "\<exists>q q'. render_dependency name dep q = (None, q') \<and>
           prefix (md q') (md s') \<and> prefix (mermaid_code q') (mermaid_code s')"
proof -
  from assms(3) have "0 < length deps" by (cases deps) auto
  with assms(1,2) have "render_dependencies name deps (md_write ''\<newline>   **Dependencies:**'' s) = (None, s')"
    by (simp add: render_depends_on_def Let_def)
  from render_dependencies_ran [OF this assms(3)] show ?thesis .
qed

lemma render_activity_stages:
  assumes "render_activity act s = (None, s')"
  shows "\<exists>name tipo s3 s4 s5. getitem act ''name'' = Inr name \<and> getitem act ''type'' = Inr tipo \<and>
           render_activity_description act s3 = (None, s4) \<and>
           render_depends_on name act s4 = (None, s5) \<and>
           (if tipo = JStr ''Copy'' then render_copy act s5 = (None, s') else s' = s5)"
  using assms
  by (auto simp: render_activity_def Let_def split: sum.splits prod.splits option.splits if_splits)

lemma render_activity_dep:
  assumes "render_activity act s = (None, s')"
    and "getitem act ''dependsOn'' = Inr (JArr deps)" and "dep \<in> set deps"
  shows "\<exists>name q q'. getitem act ''name'' = Inr name \<and> render_dependency name dep q = (None, q') \<and>
           prefix (md q') (md s') \<and> prefix (mermaid_code q') (mermaid_code s')"
proof -
  from render_activity_stages [OF assms(1)] obtain name tipo s3 s4 s5
    where name: "getitem act ''name'' = Inr name"
      and deps: "render_depends_on name act s4 = (None, s5)"
      and copy: "if tipo = JStr ''Copy'' then render_copy act s5 = (None, s') else s' = s5"
    by blast
  from render_depends_on_dep [OF deps assms(2,3)] obtain q q'
    where q: "render_dependency name dep q = (None, q')"
      and p: "prefix (md q') (md s5)" "prefix (mermaid_code q') (mermaid_code s5)"
    by blast
  from copy have "prefix (md s5) (md s') \<and> prefix (mermaid_code s5) (mermaid_code s')"
    by (auto split: if_splits dest: render_copy_mono)
  with p have "prefix (md q') (md s')" "prefix (mermaid_code q') (mermaid_code s')"
    by (auto intro: prefix_order.trans)
  with name q show ?thesis by blast
qed

lemma render_copy_text:
  assumes "render_copy act q = (None, q')"
    and "getitem act ''typeProperties'' = Inr tp" and "getitem tp ''source'' = Inr src"
    and "getitem src ''sqlReaderQuery'' = Inr query" and "getitem query ''value'' = Inr v"
  shows "suffix (''\<newline>   ```SQL \<newline>   '' @ py_str v @ '' \<newline>   ```'') (md q')"
  using assms
  by (auto simp: render_copy_def md_write_def Let_def suffix_def split: sum.splits)

lemma render_activity_copy:
  assumes "render_activity act s = (None, s')" and "getitem act ''type'' = Inr (JStr ''Copy'')"
  shows "\<exists>q. render_copy act q = (None, s')"
  using render_activity_stages [OF assms(1)] assms(2) by auto

lemmas model_defs =
  read_pipeline_def open_append_def render_pipeline_def render_description_def
  render_parameters_def render_activity_def render_activity_description_def
  render_depends_on_def render_dependency_def render_copy_def md_write_def str_replace_def

lemma render_pipeline_ok_parameters:
  assumes "render_pipeline doc out = (None, out')" and "getitem doc ''properties'' = Inr props"
  shows "\<exists>out3. render_parameters props out3 = (None, out')"
  using assms
  by (auto simp: render_pipeline_def Let_def getitem_py_get split: sum.splits prod.splits option.splits)

lemma render_parameters_rows:
  assumes "render_parameters props out = (None, out')" and "getitem props ''parameters'' = Inr (JObj rows)"
  shows "\<exists>out1. render_parameter_rows rows out1 = (None, out')"
  using assms
  by (auto simp: render_parameters_def Let_def getitem_py_get getitem_py_in split: sum.splits)

lemma render_description_dict:
  "getitem props k = Inr x \<Longrightarrow> \<exists>out2. prefix out out2 \<and> render_description props out = (None, out2)"
  by (cases props) (auto simp: render_description_def split: option.splits)

lemma render_parameter_rows_dicts:
  "\<forall>row \<in> set rows. \<exists>kvs. snd row = JObj kvs \<Longrightarrow> fst (render_parameter_rows rows out) = None"
  by (induction rows out rule: render_parameter_rows.induct) auto

section \<open>The claims\<close>

text \<open>
  C1. In a run that returns normally, every activity with a dependency entry on the
  activity named \<^verbatim>\<open>Load Data\<close> whose first condition is \<^verbatim>\<open>Succeeded\<close> leaves in the output
  the bulleted line with the link target \<^verbatim>\<open>#Load-Data\<close> followed by \<^verbatim>\<open>(Succeeded)\<close>, and the
  diagram written under the "Activities Diagram" heading contains the edge from
  \<^verbatim>\<open>Load_Data\<close> to the current activity's name with spaces replaced by underscores.
\<close>

theorem dependency_rendered:
  assumes ok: "raised (read_pipeline (Document doc) markdown_file) = None"
    and props: "getitem doc ''properties'' = Inr properties"
    and acts: "getitem properties ''activities'' = Inr (JArr activities)"
    and act: "act \<in> set activities"
    and name: "getitem act ''name'' = Inr (JStr activity_name)"
    and deps: "getitem act ''dependsOn'' = Inr (JArr depends_on)"
    and dep: "dep \<in> set depends_on"
    and dep_activity: "getitem dep ''activity'' = Inr (JStr ''Load Data'')"
    and conds: "getitem dep ''dependencyConditions'' = Inr conditions"
    and cond: "getitem0 conditions = Inr (JStr ''Succeeded'')"
  shows "sublist ''\<newline>   * [Load Data](#Load-Data) (Succeeded) \<newline>''
           (md_text (read_pipeline (Document doc) markdown_file)) \<and>
         (\<exists>diagram.
            prefix ''```mermaid\<newline>graph LR;\<newline>'' diagram \<and> suffix '' ```'' diagram \<and>
            sublist (''Load_Data --> '' @ str_replace activity_name CHR '' '' CHR ''_'' @ '';\<newline>'') diagram \<and>
            sublist (''\<newline>\<newline> ### Activities Diagram \<newline>\<newline> '' @ diagram)
              (md_text (read_pipeline (Document doc) markdown_file)))"
proof -
  let ?out = "md_text (read_pipeline (Document doc) markdown_file)"
  let ?line = "''\<newline>   * [Load Data](#Load-Data) (Succeeded) \<newline>''"
  let ?edge = "''Load_Data --> '' @ str_replace activity_name CHR '' '' CHR ''_'' @ '';\<newline>''"
  from render_pipeline_ok [OF read_pipeline_ok [OF ok] props acts] obtain out2 st
    where ra: "render_activities activities \<lparr>md = out2, mermaid_code = ''```mermaid\<newline>graph LR;\<newline>''\<rparr> = (None, st)"
      and rp: "render_parameters properties
                 (md st @ ''\<newline>\<newline> ### Activities Diagram \<newline>'' @ ''\<newline> '' @ (mermaid_code st @ '' ```'')) = (None, ?out)"
    by blast
  from render_activities_ran [OF ra act] obtain s s'
    where a: "render_activity act s = (None, s')"
      and s: "prefix (md s') (md st)" "prefix (mermaid_code s') (mermaid_code st)"
    by blast
  from render_activity_dep [OF a deps dep] obtain nm q q'
    where nm: "getitem act ''name'' = Inr nm"
      and d: "render_dependency nm dep q = (None, q')"
      and q: "prefix (md q') (md s')" "prefix (mermaid_code q') (mermaid_code s')"
    by blast
  from nm name have nm_eq: "nm = JStr activity_name" by simp
  from render_dependency_text [OF d dep_activity conds cond] nm_eq
  have "md q' = md q @ ?line" and "mermaid_code q' = mermaid_code q @ ?edge"
    by (simp_all add: str_replace_def)
  then have "sublist ?line (md q')" and "sublist ?edge (mermaid_code q')"
    by simp_all
  with q s have line: "sublist ?line (md st)" and edge: "sublist ?edge (mermaid_code st)"
    by (blast intro: sublist_prefix_trans)+
  let ?diagram = "mermaid_code st @ '' ```''"
  from render_parameters_mono [OF rp]
  have final: "prefix (md st @ ''\<newline>\<newline> ### Activities Diagram \<newline>\<newline> '' @ ?diagram) ?out"
    by simp
  have "prefix (md st) (md st @ ''\<newline>\<newline> ### Activities Diagram \<newline>\<newline> '' @ ?diagram)"
    by simp
  from this final have "prefix (md st) ?out"
    by (rule prefix_order.trans)
  with line have 1: "sublist ?line ?out"
    by (rule sublist_prefix_trans)
  from render_activities_mono [OF ra] have 2: "prefix ''```mermaid\<newline>graph LR;\<newline>'' ?diagram"
    by (auto simp: prefix_def)
  have 3: "suffix '' ```'' ?diagram"
    by (simp add: suffix_def)
  from edge have 4: "sublist ?edge ?diagram"
    by (rule sublist_prefix_trans) simp
  have "sublist (''\<newline>\<newline> ### Activities Diagram \<newline>\<newline> '' @ ?diagram)
          (md st @ ''\<newline>\<newline> ### Activities Diagram \<newline>\<newline> '' @ ?diagram)"
    by (rule sublist_append_leftI)
  from this final have 5: "sublist (''\<newline>\<newline> ### Activities Diagram \<newline>\<newline> '' @ ?diagram) ?out"
    by (rule sublist_prefix_trans)
  from 1 2 3 4 5 show ?thesis by blast
qed

text \<open>The theorem at a pipeline of two activities, the second depending on the first.\<close>

theorem dependency_rendered_witness:
  "raised (read_pipeline (Document dependency_example) None) = None \<and>
   sublist ''\<newline>   * [Load Data](#Load-Data) (Succeeded) \<newline>''
     (md_text (read_pipeline (Document dependency_example) None)) \<and>
   (\<exists>diagram.
      prefix ''```mermaid\<newline>graph LR;\<newline>'' diagram \<and> suffix '' ```'' diagram \<and>
      sublist ''Load_Data --> Next_Step;\<newline>'' diagram \<and>
      sublist (''\<newline>\<newline> ### Activities Diagram \<newline>\<newline> '' @ diagram)
        (md_text (read_pipeline (Document dependency_example) None)))"
proof -
  let ?dep = "JObj [(''activity'', JStr ''Load Data''), (''dependencyConditions'', JArr [JStr ''Succeeded''])]"
  let ?act = "JObj [(''name'', JStr ''Next Step''), (''type'', JStr ''Wait''), (''dependsOn'', JArr [?dep])]"
  let ?acts = "[JObj [(''name'', JStr ''Load Data''), (''type'', JStr ''Wait''), (''dependsOn'', JArr [])], ?act]"
  have ok: "raised (read_pipeline (Document dependency_example) None) = None"
    by (simp add: dependency_example_def model_defs)
  have props: "getitem dependency_example ''properties'' = Inr (JObj [(''activities'', JArr ?acts)])"
    by (simp add: dependency_example_def)
  from dependency_rendered [OF ok props, of ?acts ?act "''Next Step''" "[?dep]" ?dep "JArr [JStr ''Succeeded'']"]
  show ?thesis using ok by (simp add: str_replace_def)
qed

text \<open>
  C2, as the code has it. \<^verbatim>\<open>md.close()\<close> is the last statement of the function and there is
  no \<^verbatim>\<open>try\<close>/\<^verbatim>\<open>finally\<close> and no \<^verbatim>\<open>with\<close> around \<^verbatim>\<open>md\<close>: the handle is closed by the
  function exactly when the invocation returns normally. An invocation that raises leaves
  it open.
\<close>

theorem closed_iff_returned:
  "md_closed (read_pipeline pipeline_file markdown_file) =
     (raised (read_pipeline pipeline_file markdown_file) = None)"
  by (simp add: read_pipeline_def Let_def split: pipeline_file.splits prod.splits option.splits)

text \<open>
  C2 as stated fails: a document with a name and nothing else raises at the lookup of
  \<^verbatim>\<open>activities\<close>, after the heading was written, and \<^verbatim>\<open>md.close()\<close> is never reached.
\<close>

theorem handle_left_open:
  "read_pipeline (Document (JObj [(''name'', JStr ''Daily'')])) (Some ''# Docs'') =
     \<lparr>raised = Some (KeyError (JStr ''activities'')),
        md_text = ''# Docs\<newline>\<newline> ## Daily \<newline>'',
        md_closed = False\<rparr>"
  by (simp add: model_defs)

text \<open>
  C3, as the code has it. In a run that returns normally, every activity of type
  \<^verbatim>\<open>Copy\<close> whose \<^verbatim>\<open>typeProperties.source.sqlReaderQuery.value\<close> is \<^verbatim>\<open>SELECT 1\<close> leaves in the
  output a fenced block whose opening fence carries the tag \<^verbatim>\<open>SQL\<close> in capitals followed by
  a space, and whose body line is the query indented by three spaces and followed by a
  space.
\<close>

theorem copy_sql_block:
  assumes ok: "raised (read_pipeline (Document doc) markdown_file) = None"
    and props: "getitem doc ''properties'' = Inr properties"
    and acts: "getitem properties ''activities'' = Inr (JArr activities)"
    and act: "act \<in> set activities"
    and copy: "getitem act ''type'' = Inr (JStr ''Copy'')"
    and tp: "getitem act ''typeProperties'' = Inr type_properties"
    and src: "getitem type_properties ''source'' = Inr source_info"
    and query: "getitem source_info ''sqlReaderQuery'' = Inr query"
    and val: "getitem query ''value'' = Inr (JStr ''SELECT 1'')"
  shows "sublist ''\<newline>   ```SQL \<newline>   SELECT 1 \<newline>   ```''
           (md_text (read_pipeline (Document doc) markdown_file))"
proof -
  let ?out = "md_text (read_pipeline (Document doc) markdown_file)"
  let ?block = "''\<newline>   ```SQL \<newline>   SELECT 1 \<newline>   ```''"
  from render_pipeline_ok [OF read_pipeline_ok [OF ok] props acts] obtain out2 st
    where ra: "render_activities activities \<lparr>md = out2, mermaid_code = ''```mermaid\<newline>graph LR;\<newline>''\<rparr> = (None, st)"
      and rp: "render_parameters properties
                 (md st @ ''\<newline>\<newline> ### Activities Diagram \<newline>'' @ ''\<newline> '' @ (mermaid_code st @ '' ```'')) = (None, ?out)"
    by blast
  from render_activities_ran [OF ra act] obtain s s'
    where a: "render_activity act s = (None, s')" and s: "prefix (md s') (md st)"
    by blast
  from render_activity_copy [OF a copy] obtain q where "render_copy act q = (None, s')"
    by blast
  from render_copy_text [OF this tp src query val] have "sublist ?block (md s')"
    by simp
  from this s have "sublist ?block (md st)"
    by (rule sublist_prefix_trans)
  moreover from render_parameters_mono [OF rp] have "prefix (md st) ?out"
    by (auto simp: prefix_def)
  ultimately show ?thesis
    by (rule sublist_prefix_trans)
qed

text \<open>The theorem at a pipeline with one Copy activity.\<close>

theorem copy_sql_block_witness:
  "raised (read_pipeline (Document copy_example) None) = None \<and>
   sublist ''\<newline>   ```SQL \<newline>   SELECT 1 \<newline>   ```''
     (md_text (read_pipeline (Document copy_example) None))"
proof -
  let ?query = "JObj [(''value'', JStr ''SELECT 1'')]"
  let ?src = "JObj [(''type'', JStr ''OracleSource''), (''sqlReaderQuery'', ?query)]"
  let ?tp = "JObj [(''source'', ?src)]"
  let ?act = "JObj [(''name'', JStr ''Load Data''), (''type'', JStr ''Copy''), (''dependsOn'', JArr []),
                    (''typeProperties'', ?tp)]"
  have ok: "raised (read_pipeline (Document copy_example) None) = None"
    by (simp add: copy_example_def model_defs)
  have props: "getitem copy_example ''properties'' = Inr (JObj [(''activities'', JArr [?act])])"
    by (simp add: copy_example_def)
  from copy_sql_block [OF ok props, of "[?act]" ?act ?tp ?src ?query]
  show ?thesis using ok by simp
qed

text \<open>
  C3 as stated fails: for a pipeline whose one activity is a Copy with the query
  \<^verbatim>\<open>SELECT 1\<close> the output is the text below. Its only fence tag for the query is \<^verbatim>\<open>SQL\<close>,
  the text \<^verbatim>\<open>sql\<close> in lower case occurs nowhere in it, and the line between the fences is
  \<^verbatim>\<open>SELECT 1\<close> with three spaces before it and one after it.
\<close>

theorem copy_block_tag_is_upper_case:
  "md_text (read_pipeline (Document copy_example) None) =
     ''\<newline>\<newline> ## Daily \<newline>'' @
     ''\<newline> - **Name:** Load Data \<newline>'' @
     ''\<newline>   **Type:** Copy \<newline>'' @
     ''\<newline>   **Data Source Type:** OracleSource \<newline>'' @
     ''\<newline>   **SQL Statement:**  \<newline>'' @
     ''\<newline>   ```SQL \<newline>   SELECT 1 \<newline>   ```'' @
     ''\<newline>\<newline> ### Activities Diagram \<newline>'' @
     ''\<newline> ```mermaid\<newline>graph LR;\<newline>Load_Data(Load Data);\<newline> ```'' \<and>
   \<not> sublist ''sql'' (md_text (read_pipeline (Document copy_example) None))"
proof -
  have out_eq: "md_text (read_pipeline (Document copy_example) None) =
     ''\<newline>\<newline> ## Daily \<newline>'' @
     ''\<newline> - **Name:** Load Data \<newline>'' @
     ''\<newline>   **Type:** Copy \<newline>'' @
     ''\<newline>   **Data Source Type:** OracleSource \<newline>'' @
     ''\<newline>   **SQL Statement:**  \<newline>'' @
     ''\<newline>   ```SQL \<newline>   SELECT 1 \<newline>   ```'' @
     ''\<newline>\<newline> ### Activities Diagram \<newline>'' @
     ''\<newline> ```mermaid\<newline>graph LR;\<newline>Load_Data(Load Data);\<newline> ```''"
    by (simp add: copy_example_def model_defs)
  have "\<not> sublist ''sql'' (md_text (read_pipeline (Document copy_example) None))"
    unfolding out_eq by (simp add: sublist_code)
  with out_eq show ?thesis by simp
qed

text \<open>
  C4. When the pipeline file cannot be opened, or \<^verbatim>\<open>json.load\<close> cannot parse it, the
  exception leaves the function and nothing has been appended to the markdown file: its
  text is what it was (an absent file has been created empty by the \<^verbatim>\<open>open\<close> in append
  mode).
\<close>

theorem unreadable_input_appends_nothing:
  assumes "pipeline_file = Unopenable \<or> pipeline_file = Unparsable"
  shows "raised (read_pipeline pipeline_file markdown_file) =
           Some (if pipeline_file = Unopenable then OSError else JSONDecodeError) \<and>
         md_text (read_pipeline pipeline_file markdown_file) =
           (case markdown_file of None \<Rightarrow> [] | Some text \<Rightarrow> text)"
  using assms by (auto simp: read_pipeline_def open_append_def)

text \<open>The theorem at an unparsable pipeline file and a markdown file that has a title.\<close>

theorem unreadable_input_appends_nothing_witness:
  "raised (read_pipeline Unparsable (Some ''# Docs'')) = Some JSONDecodeError \<and>
   md_text (read_pipeline Unparsable (Some ''# Docs'')) = ''# Docs''"
  using unreadable_input_appends_nothing [of Unparsable "Some ''# Docs''"] by simp

end
